theory Spec2Isabelle
  imports Complex_Main "HOL-Library.Sublist"
begin

section \<open>JavaScript numbers\<close>

text \<open>
  The component computes with JavaScript numbers. A number is modelled as a finite value
  or one of the three special values of IEEE 754 arithmetic that division by zero
  produces. The operations on the special values and the division by zero are those of
  IEEE 754. On finite operands the result is the exact real one: the model agrees with a
  double operation wherever the exact result is itself a double, and it does not round,
  underflow or overflow where it is not. The two zeros \<open>+0\<close> and \<open>-0\<close> are one value
  \<open>Fin 0\<close>, read as \<open>+0\<close> when it is a divisor.
\<close>

datatype number = Fin real | PInf | NInf | NaN

text \<open>The operator \<open>/\<close>.\<close>

fun js_div :: "number \<Rightarrow> number \<Rightarrow> number" where
  "js_div (Fin x) (Fin y) =
     (if y = 0 then (if x = 0 then NaN else if 0 < x then PInf else NInf)
      else Fin (x / y))"
| "js_div (Fin x) PInf = Fin 0"
| "js_div (Fin x) NInf = Fin 0"
| "js_div PInf (Fin y) = (if 0 \<le> y then PInf else NInf)"
| "js_div NInf (Fin y) = (if 0 \<le> y then NInf else PInf)"
| "js_div PInf PInf = NaN"
| "js_div PInf NInf = NaN"
| "js_div NInf PInf = NaN"
| "js_div NInf NInf = NaN"
| "js_div NaN b = NaN"
| "js_div a NaN = NaN"

text \<open>The operator \<open>*\<close>.\<close>

fun js_mult :: "number \<Rightarrow> number \<Rightarrow> number" where
  "js_mult (Fin x) (Fin y) = Fin (x * y)"
| "js_mult (Fin x) PInf = (if x = 0 then NaN else if 0 < x then PInf else NInf)"
| "js_mult (Fin x) NInf = (if x = 0 then NaN else if 0 < x then NInf else PInf)"
| "js_mult PInf (Fin y) = (if y = 0 then NaN else if 0 < y then PInf else NInf)"
| "js_mult NInf (Fin y) = (if y = 0 then NaN else if 0 < y then NInf else PInf)"
| "js_mult PInf PInf = PInf"
| "js_mult PInf NInf = NInf"
| "js_mult NInf PInf = NInf"
| "js_mult NInf NInf = PInf"
| "js_mult NaN b = NaN"
| "js_mult a NaN = NaN"

text \<open>
  Truthiness of a number, and the operator \<open>||\<close> on numbers: zero and \<open>NaN\<close> are
  falsy, everything else (the infinities too) is truthy.
\<close>

fun truthy :: "number \<Rightarrow> bool" where
  "truthy (Fin x) = (x \<noteq> 0)"
| "truthy PInf = True"
| "truthy NInf = True"
| "truthy NaN = False"

definition js_or :: "number \<Rightarrow> number \<Rightarrow> number" where
  "js_or a b = (if truthy a then a else b)"

text \<open>\<open>Math.ceil\<close>: the special values are returned as they are.\<close>

fun Math_ceil :: "number \<Rightarrow> number" where
  "Math_ceil (Fin x) = Fin (of_int \<lceil>x\<rceil>)"
| "Math_ceil PInf = PInf"
| "Math_ceil NInf = NInf"
| "Math_ceil NaN = NaN"

text \<open>A number that a stylesheet or an array length can hold.\<close>

fun finite_number :: "number \<Rightarrow> bool" where
  "finite_number (Fin x) = True"
| "finite_number PInf = False"
| "finite_number NInf = False"
| "finite_number NaN = False"

text \<open>An integer greater than or equal to 1.\<close>

fun positive_integer :: "number \<Rightarrow> bool" where
  "positive_integer (Fin x) = (of_int \<lfloor>x\<rfloor> = x \<and> 1 \<le> x)"
| "positive_integer PInf = False"
| "positive_integer NInf = False"
| "positive_integer NaN = False"

text \<open>A finite, strictly positive number.\<close>

fun positive_size :: "number \<Rightarrow> bool" where
  "positive_size (Fin x) = (0 < x)"
| "positive_size PInf = False"
| "positive_size NInf = False"
| "positive_size NaN = False"







section \<open>Configuration\<close>

text \<open>The union types \<open>MarqueeSliderAxis\<close> and \<open>MarqueeSliderFade\<close>.\<close>

datatype MarqueeSliderAxis = Axis_x | Axis_y | Axis_neg_x | Axis_neg_y

datatype MarqueeSliderFade = Fade_start | Fade_end | Fade_both

text \<open>The string literal of an axis value.\<close>

fun axis_literal :: "MarqueeSliderAxis \<Rightarrow> string" where
  "axis_literal Axis_x = ''x''"
| "axis_literal Axis_y = ''y''"
| "axis_literal Axis_neg_x = ''-x''"
| "axis_literal Axis_neg_y = ''-y''"

text \<open>\<open>const isVertical = axis.includes("y")\<close>\<close>

definition isVertical :: "MarqueeSliderAxis \<Rightarrow> bool" where
  "isVertical axis = (CHR ''y'' \<in> set (axis_literal axis))"


section \<open>Measured state and the measurement handler\<close>

text \<open>
  The two state cells \<open>mFactor\<close> and \<open>distance\<close> of a mounted component, and their
  initial values \<open>useState(1)\<close> and \<open>useState(balanceDistance)\<close>.
\<close>

record marquee_state =
  mFactor :: number
  distance :: number

definition initial_state :: "number \<Rightarrow> marquee_state" where
  "initial_state balanceDistance = \<lparr>mFactor = Fin 1, distance = balanceDistance\<rparr>"

text \<open>The part of a bounding rectangle that the handler reads.\<close>

record DOMRect =
  width :: number
  height :: number

text \<open>
  \<open>handleResize\<close>. The closure captures \<open>isVertical\<close> and \<open>clone\<close>; the two refs hold
  an element or \<open>null\<close>, and an attached element is given by its bounding rectangle.
  The state setters of one call take effect together, so the call maps the state before
  it to the state after it.
\<close>

definition handleResize ::
  "bool \<Rightarrow> bool \<Rightarrow> DOMRect option \<Rightarrow> DOMRect option \<Rightarrow> marquee_state \<Rightarrow> marquee_state" where
  "handleResize isVert clone view holder st =
     (case view of
        None \<Rightarrow> st
      | Some viewRect \<Rightarrow>
          (case holder of
             None \<Rightarrow> st
           | Some holderRect \<Rightarrow>
               (let st1 = st\<lparr>distance := (if isVert then height viewRect else width viewRect)\<rparr>
                in if clone
                   then st1\<lparr>mFactor :=
                          Math_ceil (if isVert
                                     then js_div (height viewRect) (height holderRect)
                                     else js_div (width viewRect) (width holderRect))\<rparr>
                   else st1)))"

text \<open>
  One measurement cycle is one call of the handler, on mount or on a resize event, with
  the configuration of the render whose effect installed it and what the two refs hold
  at that moment. A sequence of cycles is run from left to right.
\<close>

record cycle =
  cycle_axis :: MarqueeSliderAxis
  cycle_clone :: bool
  viewRef :: "DOMRect option"
  holderRef :: "DOMRect option"

definition measure_cycle :: "cycle \<Rightarrow> marquee_state \<Rightarrow> marquee_state" where
  "measure_cycle c st =
     handleResize (isVertical (cycle_axis c)) (cycle_clone c) (viewRef c) (holderRef c) st"

fun run_cycles :: "cycle list \<Rightarrow> marquee_state \<Rightarrow> marquee_state" where
  "run_cycles [] st = st"
| "run_cycles (c # cs) st = run_cycles cs (measure_cycle c st)"

text \<open>The size of a rectangle along the scroll axis.\<close>

definition axis_size :: "bool \<Rightarrow> DOMRect \<Rightarrow> number" where
  "axis_size isVert r = (if isVert then height r else width r)"


section \<open>Style and animation\<close>

text \<open>
  The number of seconds written into the \<open>animation\<close> shorthand of the track style:
  \<open>speed * (distance / balanceDistance) || 0\<close>.
\<close>

definition animation_duration :: "number \<Rightarrow> number \<Rightarrow> number \<Rightarrow> number" where
  "animation_duration speed distance_px balanceDistance =
     js_or (js_mult speed (js_div distance_px balanceDistance)) (Fin 0)"


text \<open>\<open>animationStyle\<close>: the transform target, and the text of the style element.\<close>

definition anim :: "MarqueeSliderAxis \<Rightarrow> string" where
  "anim axis =
     (if axis = Axis_neg_x then ''translateX(100%)''
      else if axis = Axis_x then ''translateX(-100%)''
      else if axis = Axis_y then ''translateY(-100%)''
      else ''translateY(100%)'')"

definition animationStyle :: "string \<Rightarrow> MarqueeSliderAxis \<Rightarrow> bool \<Rightarrow> string" where
  "animationStyle uid axis pauseOnHover =
     ''\<newline>      .marquee-anim:hover > .marquee-'' @ uid @ '' {\<newline>''
     @ ''        animation-play-state: ''
     @ (if pauseOnHover then ''paused !important'' else ''running'') @ '';\<newline>''
     @ ''      }\<newline>''
     @ ''\<newline>''
     @ ''  @keyframes '' @ uid @ ''{\<newline>''
     @ ''    100% {\<newline>''
     @ ''      transform: '' @ anim axis @ ''\<newline>''
     @ ''    }\<newline>''
     @ ''  }\<newline>''"

text \<open>
  \<open>fadeStyle\<close>: style properties are a list of key and value pairs, in the order the
  object literal writes them.
\<close>

type_synonym CSSProperties = "(string \<times> string) list"

definition fadeStyle :: "MarqueeSliderFade \<Rightarrow> MarqueeSliderAxis \<Rightarrow> CSSProperties" where
  "fadeStyle fade axis =
     (let gradientDirection =
            (if axis = Axis_x \<or> axis = Axis_neg_x then ''to right'' else ''to bottom'');
          start = (if fade = Fade_start \<or> fade = Fade_both then ''transparent'' else ''black'');
          end = (if fade = Fade_end \<or> fade = Fade_both then ''transparent'' else ''black'')
      in [(''WebkitMaskImage'',
             ''linear-gradient('' @ gradientDirection @ '', '' @ start
               @ '', black 20%, black 80%, '' @ end @ '')''),
          (''WebkitMaskRepeat'', ''no-repeat''),
          (''WebkitMaskSize'', ''100% 100%''),
          (''maskImage'',
             ''linear-gradient('' @ gradientDirection @ '', '' @ start
               @ '', black 20%, black 80%, '' @ end @ '')''),
          (''maskRepeat'', ''no-repeat''),
          (''maskSize'', ''100% 100%'')])"

text \<open>
  The style of the viewport element: \<open>props.fade\<close> is \<open>null\<close> or a fade mode, and the
  mask properties are spread in only when it is set.
\<close>

definition viewStyle :: "MarqueeSliderFade option \<Rightarrow> MarqueeSliderAxis \<Rightarrow> CSSProperties" where
  "viewStyle fade axis =
     [(''height'', ''100%''), (''overflow'', ''clip'')]
     @ (case fade of None \<Rightarrow> [] | Some f \<Rightarrow> fadeStyle f axis)"


text \<open>
  The direction of a gradient that runs along the scroll axis, from the leading edge
  (left, or top when the axis is vertical) to the trailing edge.
\<close>

definition gradient_along_axis :: "MarqueeSliderAxis \<Rightarrow> string" where
  "gradient_along_axis axis = (if isVertical axis then ''to bottom'' else ''to right'')"


section \<open>Content replication\<close>

text \<open>
  \<open>Array(len)\<close> for a number \<open>len\<close>: an array of that length when \<open>len\<close> is an
  integer from 0 to \<open>2^32 - 1\<close>, and a \<open>RangeError\<close> otherwise.
\<close>

datatype error = RangeError

definition Array_length :: "number \<Rightarrow> error + nat" where
  "Array_length len =
     (case len of
        Fin x \<Rightarrow> (if of_int \<lfloor>x\<rfloor> = x \<and> 0 \<le> x \<and> x < 2 ^ 32 then Inr (nat \<lfloor>x\<rfloor>)
                  else Inl RangeError)
      | PInf \<Rightarrow> Inl RangeError
      | NInf \<Rightarrow> Inl RangeError
      | NaN \<Rightarrow> Inl RangeError)"

text \<open>
  \<open>mappedChildren\<close>: \<open>Array(mFactor).fill(0).map(...)\<close> makes one copy of the
  children for each index of the array; a copy is given by its index.
\<close>

definition mappedChildren :: "number \<Rightarrow> error + nat list" where
  "mappedChildren factor =
     (case Array_length factor of Inl e \<Rightarrow> Inl e | Inr n \<Rightarrow> Inr [0..<n])"


section \<open>Properties of a measurement cycle\<close>

text \<open>
  A cycle that writes the clone factor (both elements attached, cloning enabled)
  measured a finite, strictly positive viewport size and holder size along its axis.
\<close>

definition cycle_sizes_positive :: "cycle \<Rightarrow> bool" where
  "cycle_sizes_positive c =
     (case viewRef c of
        None \<Rightarrow> True
      | Some viewRect \<Rightarrow>
          (case holderRef c of
             None \<Rightarrow> True
           | Some holderRect \<Rightarrow>
               cycle_clone c \<longrightarrow>
                 positive_size (axis_size (isVertical (cycle_axis c)) viewRect)
                 \<and> positive_size (axis_size (isVertical (cycle_axis c)) holderRect)))"


section \<open>Measurement\<close>

lemma handleResize_attached:
  "handleResize isVert clone (Some viewRect) (Some holderRect) st =
     (if clone
      then \<lparr>mFactor = Math_ceil (js_div (axis_size isVert viewRect) (axis_size isVert holderRect)),
            distance = axis_size isVert viewRect\<rparr>
      else \<lparr>mFactor = mFactor st, distance = axis_size isVert viewRect\<rparr>)"
  by (simp add: handleResize_def axis_size_def Let_def)

text \<open>
  C9: when the viewport or the holder element is not attached, the handler updates
  nothing: the state after the call is the state before it, so the content distance and
  the clone factor both keep their values.
\<close>

theorem handleResize_detached_noop:
  "view = None \<or> holder = None \<Longrightarrow> handleResize isVert clone view holder st = st"
  by (auto simp: handleResize_def split: option.splits)

theorem handleResize_detached_noop_witness:
  "handleResize True True None (Some \<lparr>width = Fin 120, height = Fin 40\<rparr>)
     \<lparr>mFactor = Fin 3, distance = Fin 640\<rparr> = \<lparr>mFactor = Fin 3, distance = Fin 640\<rparr>"
  using handleResize_detached_noop
    [of None "Some \<lparr>width = Fin 120, height = Fin 40\<rparr>" True True
        "\<lparr>mFactor = Fin 3, distance = Fin 640\<rparr>"]
  by simp

text \<open>
  C2, as the code has it: in every cycle with both elements attached, the value stored as
  content distance is the size of the viewport's bounding rectangle along the scroll axis
  (its height when the axis is vertical, its width otherwise). The holder's rectangle is
  read for the clone factor only.
\<close>

theorem handleResize_stores_viewport_size:
  "distance (handleResize isVert clone (Some viewRect) (Some holderRect) st) =
     (if isVert then height viewRect else width viewRect)"
  by (simp add: handleResize_def Let_def)

text \<open>
  C2, as stated, fails: with a viewport 800 pixels wide and a holder 250 pixels wide on
  the horizontal axis, the stored distance is not the holder's width.
\<close>

theorem distance_is_holder_size_counterexample:
  "distance (handleResize False True (Some \<lparr>width = Fin 800, height = Fin 50\<rparr>)
       (Some \<lparr>width = Fin 250, height = Fin 50\<rparr>) (initial_state (Fin 400)))
     \<noteq> width \<lparr>width = Fin 250, height = Fin 50\<rparr>"
  by (simp add: handleResize_def Let_def)


section \<open>Clone factor\<close>

lemma Math_ceil_quotient_positive:
  assumes "positive_size v" and "positive_size h"
  shows "positive_integer (Math_ceil (js_div v h))"
proof -
  from assms obtain x y where v: "v = Fin x" and h: "h = Fin y" and x: "0 < x" and y: "0 < y"
    by (cases v; cases h) auto
  from x y have "0 < x / y" by simp
  then have "1 \<le> \<lceil>x / y\<rceil>" by (simp add: less_ceiling_iff flip: zless_iff_Suc_zadd)
  then have "(1::real) \<le> of_int \<lceil>x / y\<rceil>" by linarith
  with v h y show ?thesis by simp
qed

lemma measure_cycle_positive_integer:
  assumes "positive_integer (mFactor st)" and "cycle_sizes_positive c"
  shows "positive_integer (mFactor (measure_cycle c st))"
proof (cases "viewRef c")
  case None
  with assms show ?thesis by (simp add: measure_cycle_def handleResize_def)
next
  case v: (Some viewRect)
  show ?thesis
  proof (cases "holderRef c")
    case None
    with assms v show ?thesis by (simp add: measure_cycle_def handleResize_def)
  next
    case h: (Some holderRect)
    with v assms show ?thesis
      by (simp add: measure_cycle_def handleResize_attached cycle_sizes_positive_def
          Math_ceil_quotient_positive)
  qed
qed

lemma run_cycles_positive_integer:
  "positive_integer (mFactor st) \<Longrightarrow> \<forall>c \<in> set cs. cycle_sizes_positive c \<Longrightarrow>
     positive_integer (mFactor (run_cycles cs st))"
  by (induction cs arbitrary: st) (simp_all add: measure_cycle_positive_integer)

text \<open>
  C3, as the code has it: from the initial state, after every sequence of measurement
  cycles in which each cycle that writes the clone factor measured a finite, strictly
  positive viewport size and holder size, the stored clone factor is an integer greater
  than or equal to 1. The hypothesis holds for every prefix of such a sequence, so the
  factor is such an integer at every moment of the run.
\<close>

theorem clone_factor_positive_integer:
  "\<forall>c \<in> set cs. cycle_sizes_positive c \<Longrightarrow>
     positive_integer (mFactor (run_cycles cs (initial_state balanceDistance)))"
  by (rule run_cycles_positive_integer) (simp_all add: initial_state_def)

theorem clone_factor_positive_integer_witness:
  "positive_integer (mFactor (run_cycles
     [\<lparr>cycle_axis = Axis_x, cycle_clone = True,
        viewRef = Some \<lparr>width = Fin 800, height = Fin 50\<rparr>,
        holderRef = Some \<lparr>width = Fin 250, height = Fin 50\<rparr>\<rparr>,
      \<lparr>cycle_axis = Axis_x, cycle_clone = True,
        viewRef = None,
        holderRef = Some \<lparr>width = Fin 250, height = Fin 50\<rparr>\<rparr>,
      \<lparr>cycle_axis = Axis_neg_y, cycle_clone = False,
        viewRef = Some \<lparr>width = Fin 0, height = Fin 0\<rparr>,
        holderRef = Some \<lparr>width = Fin 250, height = Fin 50\<rparr>\<rparr>]
     (initial_state (Fin 400))))"
  using clone_factor_positive_integer
    [of "[\<lparr>cycle_axis = Axis_x, cycle_clone = True,
        viewRef = Some \<lparr>width = Fin 800, height = Fin 50\<rparr>,
        holderRef = Some \<lparr>width = Fin 250, height = Fin 50\<rparr>\<rparr>,
      \<lparr>cycle_axis = Axis_x, cycle_clone = True,
        viewRef = None,
        holderRef = Some \<lparr>width = Fin 250, height = Fin 50\<rparr>\<rparr>,
      \<lparr>cycle_axis = Axis_neg_y, cycle_clone = False,
        viewRef = Some \<lparr>width = Fin 0, height = Fin 0\<rparr>,
        holderRef = Some \<lparr>width = Fin 250, height = Fin 50\<rparr>\<rparr>]" "Fin 400"]
  by (simp add: cycle_sizes_positive_def axis_size_def isVertical_def)

text \<open>
  C3, as stated, fails at a zero-sized viewport: with cloning enabled, a viewport of
  width 0 and a holder of width 250, the first cycle stores the clone factor 0.
\<close>

theorem clone_factor_zero_viewport_counterexample:
  "\<not> positive_integer (mFactor (run_cycles
     [\<lparr>cycle_axis = Axis_x, cycle_clone = True,
        viewRef = Some \<lparr>width = Fin 0, height = Fin 0\<rparr>,
        holderRef = Some \<lparr>width = Fin 250, height = Fin 50\<rparr>\<rparr>]
     (initial_state (Fin 400))))"
  by (simp add: measure_cycle_def handleResize_def isVertical_def)

lemma zero_holder_clone_factor_general:
  assumes "axis_size isVert holderRect = Fin 0" and "axis_size isVert viewRect = Fin v"
  shows "mFactor (handleResize isVert True (Some viewRect) (Some holderRect) st) =
           (if v = 0 then NaN else if 0 < v then PInf else NInf)"
  using assms by (simp add: handleResize_attached)

text \<open>
  C4: with cloning enabled, a viewport 800 pixels wide and a holder of size 0, the
  division is not guarded: the stored clone factor is \<open>Infinity\<close>, not 1, and building
  the copies from it raises a \<open>RangeError\<close>.
\<close>

theorem zero_holder_clone_factor_infinite:
  "mFactor (handleResize False True (Some \<lparr>width = Fin 800, height = Fin 50\<rparr>)
       (Some \<lparr>width = Fin 0, height = Fin 0\<rparr>) (initial_state (Fin 400))) = PInf
   \<and> mappedChildren PInf = Inl RangeError"
  by (simp add: handleResize_def mappedChildren_def Array_length_def)

lemma clone_disabled_since_mount:
  assumes "\<forall>c \<in> set cs. \<not> cycle_clone c"
  shows "mFactor (run_cycles cs (initial_state balanceDistance)) = Fin 1"
proof -
  from assms have "mFactor (run_cycles cs s) = mFactor s" for s
    by (induction cs arbitrary: s)
       (simp_all add: measure_cycle_def handleResize_def Let_def split: option.splits)
  then show ?thesis
    by (simp add: initial_state_def)
qed

text \<open>
  C5: a component mounted with cloning enabled, a viewport 800 pixels wide and a holder
  250 pixels wide stores the clone factor 4. When the \<open>clone\<close> prop then becomes false
  the effect runs the handler again, which does not write the clone factor: it is still
  4, not 1, and four copies of the children are rendered with cloning disabled.
\<close>

theorem clone_disabled_keeps_factor:
  "mFactor (run_cycles
      [\<lparr>cycle_axis = Axis_x, cycle_clone = True,
         viewRef = Some \<lparr>width = Fin 800, height = Fin 50\<rparr>,
         holderRef = Some \<lparr>width = Fin 250, height = Fin 50\<rparr>\<rparr>,
       \<lparr>cycle_axis = Axis_x, cycle_clone = False,
         viewRef = Some \<lparr>width = Fin 800, height = Fin 50\<rparr>,
         holderRef = Some \<lparr>width = Fin 250, height = Fin 50\<rparr>\<rparr>]
      (initial_state (Fin 400))) = Fin 4
   \<and> mappedChildren (Fin 4) = Inr [0, 1, 2, 3]"
  by (simp add: measure_cycle_def handleResize_def isVertical_def Let_def
      mappedChildren_def Array_length_def upt_rec)


section \<open>Animation duration\<close>

lemma duration_zero_balance:
  "animation_duration (Fin s) (Fin d) (Fin 0) =
     (if s = 0 \<or> d = 0 then Fin 0 else if 0 < s * d then PInf else NInf)"
  by (auto simp: animation_duration_def js_or_def zero_less_mult_iff)

text \<open>
  C1: with speed 50, a measured distance of 400 and a balance distance of 0, the computed
  duration is \<open>Infinity\<close>, not 0: the fallback \<open>|| 0\<close> replaces \<open>NaN\<close> and zero only,
  and \<open>Infinity\<close> is truthy.
\<close>

theorem duration_zero_balance_infinite:
  "animation_duration (Fin 50) (Fin 400) (Fin 0) = PInf
   \<and> \<not> finite_number (animation_duration (Fin 50) (Fin 400) (Fin 0))"
  by (simp add: animation_duration_def js_or_def)




text \<open>
  C10, as the code has it: before any measurement the stored content distance is the
  balance distance, so for every finite nonzero balance distance, and every speed that
  is not \<open>NaN\<close>, the first computed duration is the speed.
\<close>

theorem first_duration_is_speed:
  "b \<noteq> 0 \<Longrightarrow> speed \<noteq> NaN \<Longrightarrow>
     distance (initial_state (Fin b)) = Fin b
     \<and> animation_duration speed (distance (initial_state (Fin b))) (Fin b) = speed"
  by (cases speed) (simp_all add: animation_duration_def js_or_def initial_state_def)

theorem first_duration_is_speed_witness:
  "distance (initial_state (Fin 400)) = Fin 400
   \<and> animation_duration (Fin 50) (distance (initial_state (Fin 400))) (Fin 400) = Fin 50"
  by (rule first_duration_is_speed) simp_all

text \<open>
  C10, as stated, fails at the nonzero balance distance \<open>Infinity\<close>: the initial
  distance is \<open>Infinity\<close> too, the quotient is \<open>NaN\<close>, and the fallback makes the
  first duration 0, not the speed 50.
\<close>

theorem first_duration_infinite_balance_counterexample:
  "distance (initial_state PInf) = PInf
   \<and> animation_duration (Fin 50) (distance (initial_state PInf)) PInf = Fin 0
   \<and> animation_duration (Fin 50) (distance (initial_state PInf)) PInf \<noteq> Fin 50"
  by (simp add: animation_duration_def js_or_def initial_state_def)


section \<open>Transform target and fade mask\<close>

text \<open>
  C7: for each of the four axis values the style text ends with the keyframe block of
  the instance, whose transform is the one of the direction table: \<open>x\<close> gives
  \<open>translateX(-100%)\<close>, \<open>-x\<close> gives \<open>translateX(100%)\<close>, \<open>y\<close> gives
  \<open>translateY(-100%)\<close> and \<open>-y\<close> gives \<open>translateY(100%)\<close>.
\<close>

theorem transform_target_table:
  "suffix (''  @keyframes '' @ uid @ ''{\<newline>    100% {\<newline>      transform: translateX(-100%)\<newline>    }\<newline>  }\<newline>'')
     (animationStyle uid Axis_x pauseOnHover)
   \<and> suffix (''  @keyframes '' @ uid @ ''{\<newline>    100% {\<newline>      transform: translateX(100%)\<newline>    }\<newline>  }\<newline>'')
     (animationStyle uid Axis_neg_x pauseOnHover)
   \<and> suffix (''  @keyframes '' @ uid @ ''{\<newline>    100% {\<newline>      transform: translateY(-100%)\<newline>    }\<newline>  }\<newline>'')
     (animationStyle uid Axis_y pauseOnHover)
   \<and> suffix (''  @keyframes '' @ uid @ ''{\<newline>    100% {\<newline>      transform: translateY(100%)\<newline>    }\<newline>  }\<newline>'')
     (animationStyle uid Axis_neg_y pauseOnHover)"
  unfolding animationStyle_def anim_def suffix_def
  by (intro conjI; simp; metis append.assoc)

text \<open>
  C8: for every axis the mask image is a linear gradient along the scroll axis with four
  colour stops, the first at the leading edge and the last at the trailing edge. With
  fade \<open>start\<close> only the first stop is transparent, with \<open>end\<close> only the last, with
  \<open>both\<close> the first and the last; the two inner stops are black at 20% and at 80%, so
  the band between them is opaque. The prefixed property holds the same image. With a
  fade mode the viewport style is its two base properties followed by the mask
  properties, and with fade \<open>null\<close> it is the two base properties alone.
\<close>

theorem fade_mask_table:
  "map_of (fadeStyle Fade_start axis) ''maskImage''
     = Some (''linear-gradient('' @ gradient_along_axis axis
              @ '', transparent, black 20%, black 80%, black)'')
   \<and> map_of (fadeStyle Fade_end axis) ''maskImage''
     = Some (''linear-gradient('' @ gradient_along_axis axis
              @ '', black, black 20%, black 80%, transparent)'')
   \<and> map_of (fadeStyle Fade_both axis) ''maskImage''
     = Some (''linear-gradient('' @ gradient_along_axis axis
              @ '', transparent, black 20%, black 80%, transparent)'')
   \<and> map_of (fadeStyle fade axis) ''WebkitMaskImage'' = map_of (fadeStyle fade axis) ''maskImage''
   \<and> viewStyle (Some fade) axis
     = [(''height'', ''100%''), (''overflow'', ''clip'')] @ fadeStyle fade axis
   \<and> viewStyle None axis = [(''height'', ''100%''), (''overflow'', ''clip'')]"
  by (cases axis) (simp_all add: fadeStyle_def viewStyle_def gradient_along_axis_def isVertical_def)

end
